theory Spec2Isabelle
  imports Complex_Main
begin

section \<open>Seven-point fundamental matrix solver\<close>

text \<open>
  A shallow embedding of \<^verbatim>\<open>FundamentalMatrixSevenPointSolver::estimateModel\<close>
  (\<^verbatim>\<open>solver_fundamental_matrix_seven_point.h\<close>).

  Conventions of the embedding:
  \<^item> a \<^verbatim>\<open>double\<close> is a \<^typ>\<open>real\<close>: the arithmetic is exact, rounding is not modelled;
  \<^item> an \<^verbatim>\<open>int\<close> is an \<^typ>\<open>int\<close> with the 32-bit range checked where the source
    computes with it; a \<^verbatim>\<open>size_t\<close> is a \<^typ>\<open>nat\<close>;
  \<^item> a read through a raw pointer outside its buffer, a signed overflow and a failed
    index assertion of the matrix library are values of type \<open>error\<close>;
  \<^item> the two library routines the solver calls, the singular value decomposition and
    the polynomial root finder, are parameters of the model, and so is the content of
    freshly allocated matrix storage.
\<close>

subsection \<open>Errors\<close>

datatype error = OutOfBounds | SignedOverflow | IndexAssertion

definition bindE :: "error + 'a \<Rightarrow> ('a \<Rightarrow> error + 'b) \<Rightarrow> error + 'b" where
  "bindE m f = (case m of Inl e \<Rightarrow> Inl e | Inr v \<Rightarrow> f v)"

subsection \<open>Data\<close>

text \<open>
  \<^verbatim>\<open>cv::Mat\<close> as far as the solver looks at it: the field \<^verbatim>\<open>cols\<close> and the buffer
  behind the field \<^verbatim>\<open>data\<close>, read as an array of doubles.
\<close>

record Mat =
  cols :: int
  data :: "real list"

text \<open>\<^verbatim>\<open>Eigen::MatrixXd\<close>: a row count, a column count and the coefficients.\<close>

record MatrixXd =
  nrows :: nat
  ncols :: nat
  coeff :: "nat \<Rightarrow> nat \<Rightarrow> real"

text \<open>
  A matrix of the given dimensions with the given coefficients. Outside its dimensions a
  matrix holds nothing: the model puts 0 there, so that two matrices with the same
  dimensions and the same coefficients are equal.
\<close>

definition matrix :: "nat \<Rightarrow> nat \<Rightarrow> (nat \<Rightarrow> nat \<Rightarrow> real) \<Rightarrow> MatrixXd" where
  "matrix n k f = \<lparr>nrows = n, ncols = k, coeff = (\<lambda>r c. if r < n \<and> c < k then f r c else 0)\<rparr>"

text \<open>\<^verbatim>\<open>Model\<close>: the descriptor, here the 3 by 3 matrix of a \<^verbatim>\<open>FundamentalMatrix\<close>, by rows.\<close>

record Model =
  descriptor :: "real list list"

text \<open>
  The objects the call reaches through its reference and pointer parameters:
  the table behind \<^verbatim>\<open>data_\<close>, the index array behind \<^verbatim>\<open>sample_\<close> and the vector
  behind \<^verbatim>\<open>models_\<close>. The call takes this state and returns it as it leaves it.
\<close>

record memory =
  mem_data :: Mat
  mem_sample :: "nat list"
  mem_models :: "Model list"

text \<open>
  \<^verbatim>\<open>svd.matrixV()\<close> of \<^verbatim>\<open>Eigen::JacobiSVD\<close> with \<^verbatim>\<open>ComputeFullV\<close>, as a function of the
  decomposed matrix, and \<^verbatim>\<open>realRoots\<close> of \<^verbatim>\<open>Eigen::PolynomialSolver<double, 3>\<close>, as a
  function of the coefficient vector (lowest degree first).
\<close>

type_synonym svd_routine = "MatrixXd \<Rightarrow> nat \<Rightarrow> nat \<Rightarrow> real"
type_synonym root_finder = "real list \<Rightarrow> real list"

subsection \<open>Machine integers and pointer reads\<close>

definition int_range :: "int \<Rightarrow> bool" where
  "int_range v \<longleftrightarrow> - 2147483648 \<le> v \<and> v \<le> 2147483647"

definition checked :: "int \<Rightarrow> error + int" where
  "checked v = (if int_range v then Inr v else Inl SignedOverflow)"

text \<open>The conversion of a \<^verbatim>\<open>size_t\<close> to \<^verbatim>\<open>int\<close>: the low 32 bits, read as signed.\<close>

definition to_int :: "nat \<Rightarrow> int" where
  "to_int v = (let m = int v mod 4294967296 in if m < 2147483648 then m else m - 4294967296)"

definition ptr_read :: "'a list \<Rightarrow> int \<Rightarrow> error + 'a" where
  "ptr_read buf k = (if 0 \<le> k \<and> k < int (length buf) then Inr (buf ! nat k) else Inl OutOfBounds)"

subsection \<open>The linear system\<close>

text \<open>The four reads \<^verbatim>\<open>data_ptr[offset]\<close> ... \<^verbatim>\<open>data_ptr[offset + 3]\<close> of one sampled row.\<close>

definition read_at :: "Mat \<Rightarrow> int \<Rightarrow> int \<Rightarrow> error + real" where
  "read_at d offset k = bindE (checked (offset + k)) (ptr_read (data d))"

definition read_point :: "Mat \<Rightarrow> nat \<Rightarrow> error + (real \<times> real \<times> real \<times> real)" where
  "read_point d s =
     (let sample_idx = to_int s in
      bindE (checked (cols d * sample_idx)) (\<lambda>offset.
      bindE (ptr_read (data d) offset) (\<lambda>x0.
      bindE (read_at d offset 1) (\<lambda>y0.
      bindE (read_at d offset 2) (\<lambda>x1.
      bindE (read_at d offset 3) (\<lambda>y1.
      Inr (x0, y0, x1, y1)))))))"

fun coefficient_row :: "real \<times> real \<times> real \<times> real \<Rightarrow> real list" where
  "coefficient_row (x0, y0, x1, y1) =
     [x1 * x0, x1 * y0, x1, y1 * x0, y1 * y0, y1, x0, y0, 1]"

text \<open>
  The nine assignments \<^verbatim>\<open>coefficients(i, 0) = ...\<close> to \<^verbatim>\<open>coefficients(i, 8) = ...\<close>;
  the matrix library asserts that the row exists.
\<close>

definition set_row :: "MatrixXd \<Rightarrow> nat \<Rightarrow> real list \<Rightarrow> error + MatrixXd" where
  "set_row M i vs =
     (if i < nrows M \<and> length vs \<le> ncols M
      then Inr (M\<lparr>coeff := (\<lambda>r c. if r = i \<and> c < length vs then vs ! c else coeff M r c)\<rparr>)
      else Inl IndexAssertion)"

text \<open>The loop \<^verbatim>\<open>for (i = 0; i < 7; i++)\<close>, from index \<open>i\<close> on.\<close>

function fill :: "Mat \<Rightarrow> nat list \<Rightarrow> nat \<Rightarrow> MatrixXd \<Rightarrow> error + MatrixXd" where
  "fill d sample i coefficients =
     (if i < 7 then
        (case ptr_read sample (int i) of Inl e \<Rightarrow> Inl e | Inr s \<Rightarrow>
          (case read_point d s of Inl e \<Rightarrow> Inl e | Inr p \<Rightarrow>
            (case set_row coefficients i (coefficient_row p) of Inl e \<Rightarrow> Inl e
             | Inr coefficients' \<Rightarrow> fill d sample (Suc i) coefficients')))
      else Inr coefficients)"
  by pat_completeness auto
termination
  by (relation "measure (\<lambda>(d, sample, i, coefficients). 7 - i)") auto

text \<open>
  \<^verbatim>\<open>Eigen::MatrixXd coefficients(sample_number_, 9)\<close> followed by the loop. The storage
  is not initialised: \<open>uninit\<close> is what it holds.
\<close>

definition build_coefficients ::
    "(nat \<Rightarrow> nat \<Rightarrow> real) \<Rightarrow> Mat \<Rightarrow> nat list \<Rightarrow> nat \<Rightarrow> error + MatrixXd" where
  "build_coefficients uninit d sample sample_number =
     fill d sample 0 (matrix sample_number 9 uninit)"

subsection \<open>The null space\<close>

definition transpose_m :: "MatrixXd \<Rightarrow> MatrixXd" where
  "transpose_m M = matrix (ncols M) (nrows M) (\<lambda>r c. coeff M c r)"

definition product :: "MatrixXd \<Rightarrow> MatrixXd \<Rightarrow> MatrixXd" where
  "product M N =
     matrix (nrows M) (ncols N)
       (\<lambda>r c. sum_list (map (\<lambda>k. coeff M r k * coeff N k c) [0..<ncols M]))"

text \<open>\<^verbatim>\<open>V.block<9, 1>(0, k)\<close>: column \<open>k\<close> of \<open>V\<close>, rows 0 to 8.\<close>

definition block_col :: "(nat \<Rightarrow> nat \<Rightarrow> real) \<Rightarrow> nat \<Rightarrow> real list" where
  "block_col V k = map (\<lambda>r. V r k) [0..<9]"

text \<open>
  The decomposition of \<^verbatim>\<open>coefficients.transpose() * coefficients\<close>, the two vectors taken
  from it, and the loop \<^verbatim>\<open>f1[i] -= f2[i]\<close>. The result is the pair \<open>(f1, f2)\<close> as the
  rest of the function sees it.
\<close>

definition null_space :: "svd_routine \<Rightarrow> MatrixXd \<Rightarrow> real list \<times> real list" where
  "null_space svd coefficients =
     (let V = svd (product (transpose_m coefficients) coefficients);
          f1 = block_col V 7;
          f2 = block_col V 8;
          f1 = map (\<lambda>i. f1 ! i - f2 ! i) [0..<9]
      in (f1, f2))"

subsection \<open>The cubic\<close>

definition cubic :: "real list \<Rightarrow> real list \<Rightarrow> real list" where
  "cubic f1 f2 =
     (let t0 = f2 ! 4 * f2 ! 8 - f2 ! 5 * f2 ! 7;
          t1 = f2 ! 3 * f2 ! 8 - f2 ! 5 * f2 ! 6;
          t2 = f2 ! 3 * f2 ! 7 - f2 ! 4 * f2 ! 6;
          c0 = f2 ! 0 * t0 - f2 ! 1 * t1 + f2 ! 2 * t2;
          c1 = f1 ! 0 * t0 - f1 ! 1 * t1 + f1 ! 2 * t2 -
               f1 ! 3 * (f2 ! 1 * f2 ! 8 - f2 ! 2 * f2 ! 7) +
               f1 ! 4 * (f2 ! 0 * f2 ! 8 - f2 ! 2 * f2 ! 6) -
               f1 ! 5 * (f2 ! 0 * f2 ! 7 - f2 ! 1 * f2 ! 6) +
               f1 ! 6 * (f2 ! 1 * f2 ! 5 - f2 ! 2 * f2 ! 4) -
               f1 ! 7 * (f2 ! 0 * f2 ! 5 - f2 ! 2 * f2 ! 3) +
               f1 ! 8 * (f2 ! 0 * f2 ! 4 - f2 ! 1 * f2 ! 3);
          t0 = f1 ! 4 * f1 ! 8 - f1 ! 5 * f1 ! 7;
          t1 = f1 ! 3 * f1 ! 8 - f1 ! 5 * f1 ! 6;
          t2 = f1 ! 3 * f1 ! 7 - f1 ! 4 * f1 ! 6;
          c2 = f2 ! 0 * t0 - f2 ! 1 * t1 + f2 ! 2 * t2 -
               f2 ! 3 * (f1 ! 1 * f1 ! 8 - f1 ! 2 * f1 ! 7) +
               f2 ! 4 * (f1 ! 0 * f1 ! 8 - f1 ! 2 * f1 ! 6) -
               f2 ! 5 * (f1 ! 0 * f1 ! 7 - f1 ! 1 * f1 ! 6) +
               f2 ! 6 * (f1 ! 1 * f1 ! 5 - f1 ! 2 * f1 ! 4) -
               f2 ! 7 * (f1 ! 0 * f1 ! 5 - f1 ! 2 * f1 ! 3) +
               f2 ! 8 * (f1 ! 0 * f1 ! 4 - f1 ! 1 * f1 ! 3);
          c3 = f1 ! 0 * t0 - f1 ! 1 * t1 + f1 ! 2 * t2
      in [c0, c1, c2, c3])"

subsection \<open>Roots and candidates\<close>

text \<open>\<^verbatim>\<open>std::numeric_limits<double>::epsilon()\<close>.\<close>

definition epsilon :: real where
  "epsilon = 1 / 2 ^ 52"

text \<open>The body of the loop over the roots: what one root does to \<^verbatim>\<open>models_\<close>.\<close>

definition push_root :: "real list \<Rightarrow> real list \<Rightarrow> Model list \<Rightarrow> real \<Rightarrow> Model list" where
  "push_root f1 f2 models rt =
     (let s = f1 ! 8 * rt + f2 ! 8 in
      if \<bar>s\<bar> > epsilon then
        (let mu = 1 / s;
             lambda = rt * mu;
             f = map (\<lambda>i. f1 ! i * lambda + f2 ! i * mu) [0..<8];
             model = \<lparr>descriptor = [[f ! 0, f ! 1, f ! 2], [f ! 3, f ! 4, f ! 5], [f ! 6, f ! 7, 1]]\<rparr>
         in models @ [model])
      else models)"

text \<open>\<^verbatim>\<open>static constexpr size_t sampleSize()\<close>.\<close>

definition sampleSize :: nat where
  "sampleSize = 7"

text \<open>The roots the solver is given back for the sampled system.\<close>

definition roots_found :: "svd_routine \<Rightarrow> root_finder \<Rightarrow> MatrixXd \<Rightarrow> real list" where
  "roots_found svd psolve coefficients =
     (let (f1, f2) = null_space svd coefficients in psolve (cubic f1 f2))"

definition estimateModel ::
    "svd_routine \<Rightarrow> root_finder \<Rightarrow> (nat \<Rightarrow> nat \<Rightarrow> real) \<Rightarrow> memory \<Rightarrow> nat \<Rightarrow> error + (bool \<times> memory)" where
  "estimateModel svd psolve uninit m sample_number =
     (case build_coefficients uninit (mem_data m) (mem_sample m) sample_number of
        Inl e \<Rightarrow> Inl e
      | Inr coefficients \<Rightarrow>
          (let (f1, f2) = null_space svd coefficients;
               polynomial = cubic f1 f2;
               real_roots = psolve polynomial;
               n = to_int (length real_roots)
           in if n < 1 \<or> n > 3 then Inr (False, m)
              else Inr (True, m\<lparr>mem_models := foldl (push_root f1 f2) (mem_models m) real_roots\<rparr>)))"

section \<open>Notions of the specification\<close>

text \<open>
  The value in column \<open>k\<close> of row \<open>r\<close> of the table, and the correspondence
  \<open>(x0, y0, x1, y1)\<close> that the first four columns of the row hold.
\<close>

definition table_entry :: "Mat \<Rightarrow> nat \<Rightarrow> nat \<Rightarrow> real" where
  "table_entry d r k = data d ! nat (cols d * int r + int k)"

definition correspondence :: "Mat \<Rightarrow> nat \<Rightarrow> real \<times> real \<times> real \<times> real" where
  "correspondence d r =
     (table_entry d r 0, table_entry d r 1, table_entry d r 2, table_entry d r 3)"

text \<open>
  The precondition on the caller: a row index is valid when the four values of the row
  lie inside the buffer and their offsets fit the type \<^verbatim>\<open>int\<close>; a sample is valid when
  its first seven entries are valid row indices.
\<close>

definition valid_row :: "Mat \<Rightarrow> nat \<Rightarrow> bool" where
  "valid_row d r \<longleftrightarrow>
     r < 2147483648 \<and> 0 \<le> cols d * int r \<and>
     cols d * int r + 3 < int (length (data d)) \<and> cols d * int r + 3 \<le> 2147483647"

definition valid_input :: "Mat \<Rightarrow> nat list \<Rightarrow> bool" where
  "valid_input d sample \<longleftrightarrow> 7 \<le> length sample \<and> list_all (valid_row d) (take 7 sample)"

text \<open>A vector of nine entries as a 3 by 3 matrix, by rows, and the determinant of one.\<close>

definition reshape3x3 :: "real list \<Rightarrow> real list list" where
  "reshape3x3 v = [[v ! 0, v ! 1, v ! 2], [v ! 3, v ! 4, v ! 5], [v ! 6, v ! 7, v ! 8]]"

definition det3 :: "real list list \<Rightarrow> real" where
  "det3 F =
     F ! 0 ! 0 * (F ! 1 ! 1 * F ! 2 ! 2 - F ! 1 ! 2 * F ! 2 ! 1) -
     F ! 0 ! 1 * (F ! 1 ! 0 * F ! 2 ! 2 - F ! 1 ! 2 * F ! 2 ! 0) +
     F ! 0 ! 2 * (F ! 1 ! 0 * F ! 2 ! 1 - F ! 1 ! 1 * F ! 2 ! 0)"

text \<open>The vector \<open>\<lambda> f1 + f2\<close> and the value of the polynomial with coefficients \<open>c\<close>.\<close>

definition pencil :: "real \<Rightarrow> real list \<Rightarrow> real list \<Rightarrow> real list" where
  "pencil lam f1 f2 = map (\<lambda>i. lam * f1 ! i + f2 ! i) [0..<9]"

definition poly3 :: "real list \<Rightarrow> real \<Rightarrow> real" where
  "poly3 c lam = c ! 0 + c ! 1 * lam + c ! 2 * lam ^ 2 + c ! 3 * lam ^ 3"

text \<open>The bilinear form \<open>[x1, y1, 1] F [x0, y0, 1]\<^sup>T\<close> of a correspondence.\<close>

fun epipolar :: "real list list \<Rightarrow> real \<times> real \<times> real \<times> real \<Rightarrow> real" where
  "epipolar F (x0, y0, x1, y1) =
     x1 * (F ! 0 ! 0 * x0 + F ! 0 ! 1 * y0 + F ! 0 ! 2) +
     y1 * (F ! 1 ! 0 * x0 + F ! 1 ! 1 * y0 + F ! 1 ! 2) +
     (F ! 2 ! 0 * x0 + F ! 2 ! 1 * y0 + F ! 2 ! 2)"

text \<open>
  The normalization scalar of a root, and what the specification says a root
  contributes: nothing when the scalar is at most the machine epsilon in magnitude, and
  otherwise one matrix, whose entries by rows are the eight scaled combinations and 1.
\<close>

definition normalizer :: "real list \<Rightarrow> real list \<Rightarrow> real \<Rightarrow> real" where
  "normalizer f1 f2 lam = f1 ! 8 * lam + f2 ! 8"

definition expected_entries :: "real list \<Rightarrow> real list \<Rightarrow> real \<Rightarrow> real list" where
  "expected_entries f1 f2 lam =
     (let s = normalizer f1 f2 lam
      in map (\<lambda>i. f1 ! i * (lam * (1 / s)) + f2 ! i * (1 / s)) [0..<8] @ [1])"

definition expected_candidates :: "real list \<Rightarrow> real list \<Rightarrow> real \<Rightarrow> Model list" where
  "expected_candidates f1 f2 lam =
     (if \<bar>normalizer f1 f2 lam\<bar> \<le> epsilon then []
      else [\<lparr>descriptor = reshape3x3 (expected_entries f1 f2 lam)\<rparr>])"

text \<open>The entries that a call has added at the end of the output vector.\<close>

definition appended :: "memory \<Rightarrow> memory \<Rightarrow> Model list" where
  "appended m m' = drop (length (mem_models m)) (mem_models m')"

text \<open>
  The product of a matrix and a vector, and the part of the contract of the
  decomposition that the solver relies on: columns 7 and 8 of \<open>V\<close> are mapped to zero
  by the decomposed matrix (its two smallest singular values vanish).
\<close>

definition times_vec :: "MatrixXd \<Rightarrow> real list \<Rightarrow> real list" where
  "times_vec M v =
     map (\<lambda>r. sum_list (map (\<lambda>c. coeff M r c * v ! c) [0..<ncols M])) [0..<nrows M]"

definition sends_to_zero :: "MatrixXd \<Rightarrow> real list \<Rightarrow> bool" where
  "sends_to_zero M v \<longleftrightarrow> times_vec M v = replicate (nrows M) 0"

definition null_columns :: "svd_routine \<Rightarrow> MatrixXd \<Rightarrow> bool" where
  "null_columns svd N \<longleftrightarrow>
     sends_to_zero N (block_col (svd N) 7) \<and> sends_to_zero N (block_col (svd N) 8)"


section \<open>A worked example\<close>

text \<open>
  Eight correspondences that satisfy the epipolar constraint of every matrix
  \<open>diag (a, b, c)\<close> with \<open>- 3 a + 2 b + c = 0\<close>; a decomposition that returns two
  such matrices, \<open>diag (0, - 1, 2)\<close> and the identity, in columns 7 and 8; and a
  root finder that knows the cubic \<open>(1 - \<lambda>) (1 - 2 \<lambda>) (1 + \<lambda>)\<close> of this pair.
\<close>

definition demo_table :: Mat where
  "demo_table = \<lparr>cols = 4, data =
     [1, 1, - 3, 2,
      1, 2, - 3, 1,
      3, 1, - 1, 2,
      - 1, 1, 3, 2,
      1, - 1, - 3, - 2,
      3, 2, - 1, 1,
      - 3, - 2, 1, - 1,
      - 1, - 1, 3, - 2]\<rparr>"

definition demo_sample :: "nat list" where
  "demo_sample = [0, 1, 2, 3, 4, 5, 7]"

definition demo_svd :: svd_routine where
  "demo_svd M r c =
     (if c = 7 then [0, 0, 0, 0, - 1, 0, 0, 0, 2] ! r
      else if c = 8 then [1, 0, 0, 0, 1, 0, 0, 0, 1] ! r
      else 0)"

definition demo_psolve :: root_finder where
  "demo_psolve p = (if p = [1, - 2, - 1, 2] then [1, 1 / 2, - 1] else [])"

definition demo_memory :: memory where
  "demo_memory = \<lparr>mem_data = demo_table, mem_sample = demo_sample, mem_models = []\<rparr>"

definition demo_coefficients :: MatrixXd where
  "demo_coefficients =
     matrix 7 9 (\<lambda>r c. coefficient_row (correspondence demo_table (demo_sample ! r)) ! c)"

definition demo_models :: "Model list" where
  "demo_models =
     [\<lparr>descriptor = [[0, 0, 0], [0, - 1 / 2, 0], [0, 0, 1]]\<rparr>,
      \<lparr>descriptor = [[1 / 3, 0, 0], [0, 0, 0], [0, 0, 1]]\<rparr>]"

text \<open>
  A second table with the same eight correspondences in its first four columns, except
  for row 6, which the sample does not select, and with a fifth column; the index array
  has an eighth entry and the output vector is not empty.
\<close>

definition demo_table_wide :: Mat where
  "demo_table_wide = \<lparr>cols = 5, data =
     [1, 1, - 3, 2, 10,
      1, 2, - 3, 1, 20,
      3, 1, - 1, 2, 30,
      - 1, 1, 3, 2, 40,
      1, - 1, - 3, - 2, 50,
      3, 2, - 1, 1, 60,
      9, 9, 9, 9, 70,
      - 1, - 1, 3, - 2, 80]\<rparr>"

definition demo_memory_wide :: memory where
  "demo_memory_wide =
     \<lparr>mem_data = demo_table_wide, mem_sample = demo_sample @ [6], mem_models = demo_models\<rparr>"









section \<open>Auxiliary facts\<close>

subsection \<open>Lists and integers\<close>

lemma upt_8: "[0..<8] = [0, 1, 2, 3, 4, 5, 6, 7]"
  by (simp add: upt_rec)

lemma upt_9: "[0..<9] = [0, 1, 2, 3, 4, 5, 6, 7, 8]"
  by (simp add: upt_rec)

lemma sum_list_upt_sum: "sum_list (map f [0..<n]) = sum f {..<n}"
  by (simp add: interv_sum_list_conv_sum_set_nat atLeast0LessThan)

lemma to_int_small: "v < 2147483648 \<Longrightarrow> to_int v = int v"
  by (simp add: to_int_def)

lemma to_int_count: "n < 2147483648 \<Longrightarrow> (to_int n < 1 \<or> 3 < to_int n) = (n = 0 \<or> 3 < n)"
  by (auto simp: to_int_small)

subsection \<open>Reading the table\<close>

lemma read_point_Inr:
  assumes "read_point d s = Inr p" and "s < 2147483648"
  shows "p = correspondence d s"
  using assms
  by (auto simp: read_point_def read_at_def bindE_def checked_def ptr_read_def Let_def
      to_int_small correspondence_def table_entry_def nat_add_distrib
      split: sum.splits if_splits)

lemma read_point_valid:
  assumes "valid_row d s"
  shows "read_point d s = Inr (correspondence d s)"
  using assms
  by (auto simp: valid_row_def read_point_def read_at_def bindE_def checked_def ptr_read_def
      Let_def int_range_def to_int_small correspondence_def table_entry_def nat_add_distrib)

lemma valid_input_rows:
  assumes "valid_input d sample" and "r < 7"
  shows "r < length sample \<and> valid_row d (sample ! r)"
proof -
  from assms have len: "7 \<le> length sample" and all: "list_all (valid_row d) (take 7 sample)"
    by (simp_all add: valid_input_def)
  from all have "\<forall>n<length (take 7 sample). valid_row d (take 7 sample ! n)"
    by (simp only: list_all_length)
  with len assms(2) show ?thesis by simp
qed

lemma valid_input_correspondence:
  assumes "valid_input d1 s1" and "valid_input d2 s2"
    and "map (correspondence d1) (take 7 s1) = map (correspondence d2) (take 7 s2)"
    and "r < 7"
  shows "correspondence d1 (s1 ! r) = correspondence d2 (s2 ! r)"
proof -
  from assms(1,2) have len: "7 \<le> length s1" "7 \<le> length s2"
    by (simp_all add: valid_input_def)
  from assms(3) have "map (correspondence d1) (take 7 s1) ! r = map (correspondence d2) (take 7 s2) ! r"
    by simp
  with len assms(4) show ?thesis by simp
qed

subsection \<open>The coefficient matrix\<close>

text \<open>
  What a call that got past the loop has built, and that a call on valid input gets past it.
\<close>

lemma set_row_Inr:
  assumes "set_row M i vs = Inr M'"
  shows "i < nrows M \<and> length vs \<le> ncols M \<and> nrows M' = nrows M \<and> ncols M' = ncols M \<and>
         coeff M' = (\<lambda>r c. if r = i \<and> c < length vs then vs ! c else coeff M r c)"
  using assms by (auto simp: set_row_def split: if_splits)

lemma length_coefficient_row: "length (coefficient_row p) = 9"
  by (cases p) simp

lemma fill_Inr:
  assumes "fill d sample i A0 = Inr A"
  shows "nrows A = nrows A0 \<and> ncols A = ncols A0 \<and>
         (\<forall>r. i \<le> r \<and> r < 7 \<longrightarrow>
            r < nrows A0 \<and> r < length sample \<and> 9 \<le> ncols A0 \<and>
            (\<exists>p. read_point d (sample ! r) = Inr p \<and>
                 (\<forall>c<9. coeff A r c = coefficient_row p ! c))) \<and>
         (\<forall>r c. \<not> (i \<le> r \<and> r < 7 \<and> c < 9) \<longrightarrow> coeff A r c = coeff A0 r c)"
  using assms
proof (induction d sample i A0 rule: fill.induct)
  case (1 d sample i A0)
  show ?case
  proof (cases "i < 7")
    case False
    with "1.prems" have "A = A0" by simp
    with False show ?thesis by auto
  next
    case True
    from True "1.prems" obtain s p A1 where
      s: "ptr_read sample (int i) = Inr s" and
      p: "read_point d s = Inr p" and
      A1: "set_row A0 i (coefficient_row p) = Inr A1" and
      rest: "fill d sample (Suc i) A1 = Inr A"
      by (subst (asm) fill.simps) (auto split: sum.splits)
    from s have si: "i < length sample" "s = sample ! i"
      by (auto simp: ptr_read_def split: if_splits)
    note row = set_row_Inr [OF A1, unfolded length_coefficient_row]
    note IH = "1.IH" [OF True s p A1 rest]
    have dims: "nrows A = nrows A0" "ncols A = ncols A0"
      using IH row by simp_all
    have here: "\<forall>c<9. coeff A i c = coefficient_row p ! c"
      using IH row by simp
    have rows: "\<forall>r. i \<le> r \<and> r < 7 \<longrightarrow>
            r < nrows A0 \<and> r < length sample \<and> 9 \<le> ncols A0 \<and>
            (\<exists>p. read_point d (sample ! r) = Inr p \<and>
                 (\<forall>c<9. coeff A r c = coefficient_row p ! c))"
    proof (intro allI impI)
      fix r assume r: "i \<le> r \<and> r < 7"
      show "r < nrows A0 \<and> r < length sample \<and> 9 \<le> ncols A0 \<and>
            (\<exists>p. read_point d (sample ! r) = Inr p \<and>
                 (\<forall>c<9. coeff A r c = coefficient_row p ! c))"
      proof (cases "r = i")
        case True
        with row si p here show ?thesis by auto
      next
        case False
        with r have "Suc i \<le> r \<and> r < 7" by simp
        with IH row show ?thesis by simp
      qed
    qed
    have others: "\<forall>r c. \<not> (i \<le> r \<and> r < 7 \<and> c < 9) \<longrightarrow> coeff A r c = coeff A0 r c"
      using IH row True by auto
    from dims rows others show ?thesis by blast
  qed
qed

lemma build_coefficients_Inr:
  assumes "build_coefficients uninit d sample sample_number = Inr A"
  shows "7 \<le> sample_number \<and> 7 \<le> length sample \<and> nrows A = sample_number \<and> ncols A = 9 \<and>
         (\<forall>r<7. \<exists>p. read_point d (sample ! r) = Inr p \<and>
                 (\<forall>c<9. coeff A r c = coefficient_row p ! c)) \<and>
         (\<forall>r c. \<not> (r < 7 \<and> c < 9) \<longrightarrow> coeff A r c = coeff (matrix sample_number 9 uninit) r c)"
proof -
  note f = fill_Inr [OF assms [unfolded build_coefficients_def]]
  from f have "6 < nrows (matrix sample_number 9 uninit)" "6 < length sample"
    by auto
  then have "7 \<le> sample_number" "7 \<le> length sample"
    by (simp_all add: matrix_def)
  moreover from f have "nrows A = sample_number" "ncols A = 9"
    by (simp_all add: matrix_def)
  moreover from f have "\<forall>r<7. \<exists>p. read_point d (sample ! r) = Inr p \<and>
                 (\<forall>c<9. coeff A r c = coefficient_row p ! c)"
    by simp
  moreover from f have "\<forall>r c. \<not> (r < 7 \<and> c < 9) \<longrightarrow> coeff A r c = coeff (matrix sample_number 9 uninit) r c"
    by simp
  ultimately show ?thesis by blast
qed

lemma fill_returns:
  assumes "\<forall>r. i \<le> r \<and> r < 7 \<longrightarrow> r < length sample \<and> valid_row d (sample ! r)"
    and "7 \<le> nrows A0" and "9 \<le> ncols A0"
  shows "\<exists>A. fill d sample i A0 = Inr A"
  using assms
proof (induction d sample i A0 rule: fill.induct)
  case (1 d sample i A0)
  show ?case
  proof (cases "i < 7")
    case False
    then show ?thesis by simp
  next
    case True
    with "1.prems" have i: "i < length sample" "valid_row d (sample ! i)"
      by simp_all
    have s: "ptr_read sample (int i) = Inr (sample ! i)"
      using i by (simp add: ptr_read_def)
    have p: "read_point d (sample ! i) = Inr (correspondence d (sample ! i))"
      using i(2) by (rule read_point_valid)
    define A1 where "A1 = A0\<lparr>coeff := (\<lambda>r c. if r = i \<and> c < 9 then coefficient_row (correspondence d (sample ! i)) ! c else coeff A0 r c)\<rparr>"
    have A1: "set_row A0 i (coefficient_row (correspondence d (sample ! i))) = Inr A1"
      using True "1.prems" by (simp add: set_row_def length_coefficient_row A1_def)
    have "\<exists>A. fill d sample (Suc i) A1 = Inr A"
      using "1.prems" by (intro "1.IH" [OF True s p A1]) (simp_all add: A1_def)
    then show ?thesis
      using True s p A1 by (subst fill.simps) simp
  qed
qed

lemma build_coefficients_valid:
  assumes "valid_input d sample" and "7 \<le> sample_number"
  shows "build_coefficients uninit d sample sample_number =
         Inr (matrix sample_number 9
               (\<lambda>r c. if r < 7 then coefficient_row (correspondence d (sample ! r)) ! c
                      else uninit r c))"
proof -
  have "\<exists>A. fill d sample 0 (matrix sample_number 9 uninit) = Inr A"
    using assms valid_input_rows [OF assms(1)]
    by (intro fill_returns) (simp_all add: matrix_def)
  then obtain A where A: "build_coefficients uninit d sample sample_number = Inr A"
    by (auto simp: build_coefficients_def)
  note b = build_coefficients_Inr [OF A]
  have entry: "coeff A r c = coefficient_row (correspondence d (sample ! r)) ! c"
    if "r < 7" "c < 9" for r c
  proof -
    from b that obtain p where p: "read_point d (sample ! r) = Inr p"
      and c: "coeff A r c = coefficient_row p ! c"
      by blast
    from valid_input_rows [OF assms(1) that(1)] have "sample ! r < 2147483648"
      by (simp add: valid_row_def)
    from read_point_Inr [OF p this] c show ?thesis by simp
  qed
  have "coeff A = coeff (matrix sample_number 9
               (\<lambda>r c. if r < 7 then coefficient_row (correspondence d (sample ! r)) ! c
                      else uninit r c))"
  proof (intro ext)
    fix r c
    show "coeff A r c = coeff (matrix sample_number 9
               (\<lambda>r c. if r < 7 then coefficient_row (correspondence d (sample ! r)) ! c
                      else uninit r c)) r c"
    proof (cases "r < 7 \<and> c < 9")
      case True
      with entry assms(2) show ?thesis by (simp add: matrix_def)
    next
      case False
      with b have "coeff A r c = coeff (matrix sample_number 9 uninit) r c" by blast
      with False show ?thesis by (auto simp: matrix_def)
    qed
  qed
  moreover from b have "nrows A = sample_number" "ncols A = 9" by simp_all
  ultimately have "A = matrix sample_number 9
               (\<lambda>r c. if r < 7 then coefficient_row (correspondence d (sample ! r)) ! c
                      else uninit r c)"
    by (simp add: matrix_def)
  with A show ?thesis by simp
qed

lemma build_coefficients_row:
  assumes "build_coefficients uninit d sample sample_number = Inr A"
    and "i < 7" and "sample ! i < 2147483648"
  shows "map (coeff A i) [0..<9] = coefficient_row (correspondence d (sample ! i))"
proof -
  from build_coefficients_Inr [OF assms(1)] assms(2) obtain p
    where p: "read_point d (sample ! i) = Inr p"
      and c: "\<forall>c<9. coeff A i c = coefficient_row p ! c"
    by blast
  from read_point_Inr [OF p assms(3)] have "p = correspondence d (sample ! i)" .
  with c show ?thesis
    by (cases "correspondence d (sample ! i)") (simp add: upt_9)
qed

subsection \<open>The normal matrix and its null vectors\<close>


lemma normal_matrix_coeff:
  assumes "r < ncols A" and "c < ncols A"
  shows "coeff (product (transpose_m A) A) r c = (\<Sum>j<nrows A. coeff A j r * coeff A j c)"
proof -
  have "(\<Sum>j<nrows A. (if j < nrows A then coeff A j r else 0) * coeff A j c) =
        (\<Sum>j<nrows A. coeff A j r * coeff A j c)"
    by (rule sum.cong) simp_all
  with assms show ?thesis
    by (simp add: product_def transpose_m_def matrix_def sum_list_upt_sum)
qed

lemma sends_to_zero_rows:
  assumes "sends_to_zero (product (transpose_m A) A) v" and "j < nrows A"
  shows "(\<Sum>c<ncols A. coeff A j c * v ! c) = 0"
proof -
  define n where "n = nrows A"
  define k where "k = ncols A"
  define N where "N = product (transpose_m A) A"
  define Av where "Av i = (\<Sum>c<k. coeff A i c * v ! c)" for i
  have dims: "nrows N = k" "ncols N = k"
    by (simp_all add: N_def k_def product_def transpose_m_def matrix_def)
  have zero: "(\<Sum>c<k. coeff N r c * v ! c) = 0" if "r < k" for r
  proof -
    from assms(1) have "times_vec N v ! r = replicate (nrows N) 0 ! r"
      by (simp add: sends_to_zero_def N_def)
    with that dims show ?thesis
      by (simp add: times_vec_def sum_list_upt_sum)
  qed
  have row: "(\<Sum>c<k. coeff N r c * v ! c) = (\<Sum>i<n. coeff A i r * Av i)" if "r < k" for r
  proof -
    have "(\<Sum>c<k. coeff N r c * v ! c) = (\<Sum>c<k. \<Sum>i<n. coeff A i r * (coeff A i c * v ! c))"
      using that
      by (intro sum.cong refl)
         (simp add: N_def normal_matrix_coeff k_def n_def sum_distrib_right mult.assoc)
    also have "\<dots> = (\<Sum>i<n. \<Sum>c<k. coeff A i r * (coeff A i c * v ! c))"
      by (rule sum.swap)
    also have "\<dots> = (\<Sum>i<n. coeff A i r * Av i)"
      by (simp add: Av_def sum_distrib_left)
    finally show ?thesis .
  qed
  have "(\<Sum>i<n. (Av i)\<^sup>2) = (\<Sum>i<n. \<Sum>r<k. v ! r * (coeff A i r * Av i))"
    by (intro sum.cong refl)
       (simp add: power2_eq_square Av_def sum_distrib_left sum_distrib_right mult_ac)
  also have "\<dots> = (\<Sum>r<k. \<Sum>i<n. v ! r * (coeff A i r * Av i))"
    by (rule sum.swap)
  also have "\<dots> = (\<Sum>r<k. v ! r * (\<Sum>c<k. coeff N r c * v ! c))"
    by (intro sum.cong refl) (simp add: row sum_distrib_left)
  also have "\<dots> = 0"
    by (simp add: zero)
  finally have "(\<Sum>i<n. (Av i)\<^sup>2) = 0" .
  then have "\<forall>i\<in>{..<n}. (Av i)\<^sup>2 = 0"
    by (subst (asm) sum_nonneg_eq_0_iff) simp_all
  with assms(2) show ?thesis
    by (simp add: n_def Av_def k_def)
qed

lemma null_space_rows:
  assumes "build_coefficients uninit d sample sample_number = Inr A"
    and "null_columns svd (product (transpose_m A) A)"
    and "null_space svd A = (f1, f2)"
    and "i < 7"
  shows "(\<Sum>c<9. coeff A i c * f1 ! c) = 0" and "(\<Sum>c<9. coeff A i c * f2 ! c) = 0"
proof -
  from build_coefficients_Inr [OF assms(1)] assms(4)
  have i: "i < nrows A" and k: "ncols A = 9" by simp_all
  let ?V = "svd (product (transpose_m A) A)"
  from assms(2) have c7: "(\<Sum>c<9. coeff A i c * block_col ?V 7 ! c) = 0"
    and c8: "(\<Sum>c<9. coeff A i c * block_col ?V 8 ! c) = 0"
    using sends_to_zero_rows [OF _ i, unfolded k] by (simp_all add: null_columns_def)
  from assms(3) have f2: "f2 = block_col ?V 8"
    and f1: "f1 = map (\<lambda>i. block_col ?V 7 ! i - block_col ?V 8 ! i) [0..<9]"
    by (auto simp: null_space_def Let_def)
  show "(\<Sum>c<9. coeff A i c * f2 ! c) = 0"
    using c8 by (simp add: f2)
  have "(\<Sum>c<9. coeff A i c * f1 ! c) =
        (\<Sum>c<9. coeff A i c * block_col ?V 7 ! c - coeff A i c * block_col ?V 8 ! c)"
    by (intro sum.cong refl) (simp add: f1 right_diff_distrib)
  also have "\<dots> = 0"
    unfolding sum_subtractf c7 c8 by simp
  finally show "(\<Sum>c<9. coeff A i c * f1 ! c) = 0" .
qed

subsection \<open>Orthogonal families and the contract of the decomposition\<close>











subsection \<open>Determinants and the bilinear form\<close>

lemma det3_pencil: "det3 (reshape3x3 (pencil lam f1 f2)) = poly3 (cubic f1 f2) lam"
  by (simp add: det3_def reshape3x3_def pencil_def poly3_def cubic_def Let_def upt_9
      power2_eq_square power3_eq_cube algebra_simps)

lemma expected_entries_scaled:
  assumes "normalizer f1 f2 lam \<noteq> 0"
  shows "expected_entries f1 f2 lam = map (\<lambda>x. x / normalizer f1 f2 lam) (pencil lam f1 f2)"
proof -
  define s where "s = normalizer f1 f2 lam"
  have last: "(lam * f1 ! 8 + f2 ! 8) / s = 1"
    using assms by (simp add: s_def normalizer_def mult.commute)
  have each: "f1 ! i * (lam * (1 / s)) + f2 ! i * (1 / s) = (lam * f1 ! i + f2 ! i) / s" for i
    by (simp add: add_divide_distrib mult.commute)
  show ?thesis
    unfolding expected_entries_def pencil_def Let_def s_def [symmetric] each
    by (simp add: upt_8 upt_9 last)
qed

lemma det3_div:
  "det3 [[a / s, b / s, c / s], [d / s, e / s, f / s], [g / s, h / s, i / s]] =
   det3 [[a, b, c], [d, e, f], [g, h, i]] / s ^ 3"
proof (cases "s = 0")
  case True
  then show ?thesis by (simp add: det3_def)
next
  case False
  then show ?thesis by (simp add: det3_def power3_eq_cube field_simps)
qed

lemma det3_scaled:
  "det3 (reshape3x3 (map (\<lambda>x. x / s) (pencil lam f1 f2))) =
   det3 (reshape3x3 (pencil lam f1 f2)) / s ^ 3"
  by (simp add: reshape3x3_def pencil_def upt_9 det3_div)

lemma epipolar_row:
  "epipolar (reshape3x3 v) p = sum_list (map (\<lambda>c. coefficient_row p ! c * v ! c) [0..<9])"
  by (cases p) (simp add: reshape3x3_def upt_9 algebra_simps)

lemma epipolar_scaled_pencil:
  "epipolar (reshape3x3 (map (\<lambda>x. x / s) (pencil lam f1 f2))) p =
   (lam * (\<Sum>c<9. coefficient_row p ! c * f1 ! c) + (\<Sum>c<9. coefficient_row p ! c * f2 ! c)) / s"
proof -
  have "epipolar (reshape3x3 (map (\<lambda>x. x / s) (pencil lam f1 f2))) p =
        (\<Sum>c<9. coefficient_row p ! c * ((lam * f1 ! c + f2 ! c) / s))"
    unfolding epipolar_row sum_list_upt_sum
    by (intro sum.cong refl) (simp add: pencil_def)
  also have "\<dots> = (\<Sum>c<9. (lam * (coefficient_row p ! c * f1 ! c) + coefficient_row p ! c * f2 ! c) / s)"
    by (intro sum.cong refl) (simp add: algebra_simps)
  also have "\<dots> = (lam * (\<Sum>c<9. coefficient_row p ! c * f1 ! c) + (\<Sum>c<9. coefficient_row p ! c * f2 ! c)) / s"
    by (simp add: sum_divide_distrib [symmetric] sum.distrib sum_distrib_left)
  finally show ?thesis .
qed

subsection \<open>The loop over the roots\<close>

lemma epsilon_pos: "0 < epsilon"
  by (simp add: epsilon_def)

lemma push_root_eq: "push_root f1 f2 ms lam = ms @ expected_candidates f1 f2 lam"
  by (simp add: push_root_def expected_candidates_def expected_entries_def normalizer_def
      reshape3x3_def Let_def upt_8 nth_append)

lemma foldl_push_root:
  "foldl (push_root f1 f2) ms rs = ms @ concat (map (expected_candidates f1 f2) rs)"
  by (induction rs arbitrary: ms) (simp_all add: push_root_eq)

lemma length_expected_candidates:
  "length (concat (map (expected_candidates f1 f2) rs)) =
   length (filter (\<lambda>lam. epsilon < \<bar>normalizer f1 f2 lam\<bar>) rs)"
  by (induction rs) (simp_all add: expected_candidates_def)

lemma no_expected_candidates:
  "concat (map (expected_candidates f1 f2) rs) = [] \<longleftrightarrow>
   (\<forall>lam\<in>set rs. \<bar>normalizer f1 f2 lam\<bar> \<le> epsilon)"
  by (induction rs) (simp_all add: expected_candidates_def)

subsection \<open>The call\<close>

lemma estimateModel_Inr:
  assumes "build_coefficients uninit (mem_data m) (mem_sample m) sample_number = Inr A"
    and "null_space svd A = (f1, f2)"
  shows "estimateModel svd psolve uninit m sample_number =
         (if to_int (length (roots_found svd psolve A)) < 1 \<or> to_int (length (roots_found svd psolve A)) > 3
          then Inr (False, m)
          else Inr (True, m\<lparr>mem_models := mem_models m @
                  concat (map (expected_candidates f1 f2) (roots_found svd psolve A))\<rparr>))"
  using assms by (simp add: estimateModel_def roots_found_def Let_def foldl_push_root)

lemma estimateModel_cases:
  assumes "estimateModel svd psolve uninit m sample_number = Inr (ok, m')"
  obtains A f1 f2 where
    "build_coefficients uninit (mem_data m) (mem_sample m) sample_number = Inr A"
    "null_space svd A = (f1, f2)"
    "ok \<Longrightarrow> m' = m\<lparr>mem_models := mem_models m @
                  concat (map (expected_candidates f1 f2) (roots_found svd psolve A))\<rparr>"
    "\<not> ok \<Longrightarrow> m' = m"
proof -
  from assms obtain A where
    A: "build_coefficients uninit (mem_data m) (mem_sample m) sample_number = Inr A"
    by (auto simp: estimateModel_def split: sum.splits)
  obtain f1 f2 where f: "null_space svd A = (f1, f2)"
    by (cases "null_space svd A")
  from assms have "(ok \<longrightarrow> m' = m\<lparr>mem_models := mem_models m @
                  concat (map (expected_candidates f1 f2) (roots_found svd psolve A))\<rparr>) \<and>
        (\<not> ok \<longrightarrow> m' = m)"
    unfolding estimateModel_Inr [OF A f] by (auto split: if_splits)
  with A f that show thesis by blast
qed

lemma estimateModel_appended_from:
  assumes "build_coefficients uninit (mem_data m) (mem_sample m) sample_number = Inr A"
    and "null_space svd A = (f1, f2)"
    and "estimateModel svd psolve uninit m sample_number = Inr (ok, m')"
    and "M \<in> set (appended m m')"
  obtains lam where "lam \<in> set (roots_found svd psolve A)"
    and "epsilon < \<bar>normalizer f1 f2 lam\<bar>"
    and "descriptor M = reshape3x3 (map (\<lambda>x. x / normalizer f1 f2 lam) (pencil lam f1 f2))"
proof -
  have "set (appended m m') \<subseteq> set (concat (map (expected_candidates f1 f2) (roots_found svd psolve A)))"
    using assms(3) unfolding estimateModel_Inr [OF assms(1,2)]
    by (auto simp: appended_def split: if_splits)
  with assms(4) obtain lam where lam: "lam \<in> set (roots_found svd psolve A)"
    and M: "M \<in> set (expected_candidates f1 f2 lam)"
    by auto
  from M have s: "epsilon < \<bar>normalizer f1 f2 lam\<bar>"
    and d: "descriptor M = reshape3x3 (expected_entries f1 f2 lam)"
    by (auto simp: expected_candidates_def split: if_splits)
  from s epsilon_pos have "normalizer f1 f2 lam \<noteq> 0" by auto
  from d expected_entries_scaled [OF this]
  have "descriptor M = reshape3x3 (map (\<lambda>x. x / normalizer f1 f2 lam) (pencil lam f1 f2))"
    by simp
  with lam s that show thesis by blast
qed

text \<open>A call on valid input returns.\<close>

lemma estimateModel_returns:
  assumes "valid_input (mem_data m) (mem_sample m)" and "7 \<le> sample_number"
  shows "\<exists>ok m'. estimateModel svd psolve uninit m sample_number = Inr (ok, m')"
proof -
  from build_coefficients_valid [OF assms] obtain A where
    A: "build_coefficients uninit (mem_data m) (mem_sample m) sample_number = Inr A"
    by blast
  obtain f1 f2 where f: "null_space svd A = (f1, f2)"
    by (cases "null_space svd A")
  show ?thesis
    unfolding estimateModel_Inr [OF A f] by auto
qed

subsection \<open>Facts of the worked example\<close>

lemma demo_valid: "valid_input demo_table demo_sample"
  by (simp add: valid_input_def valid_row_def demo_table_def demo_sample_def)

lemma demo_build:
  "build_coefficients (\<lambda>r c. 0) demo_table demo_sample 7 = Inr demo_coefficients"
proof -
  have "(\<lambda>r c. if r < 7 \<and> c < 9 then if r < 7 then coefficient_row (correspondence demo_table (demo_sample ! r)) ! c
                      else 0 else 0) = (\<lambda>r c. if r < 7 \<and> c < 9 then coefficient_row (correspondence demo_table (demo_sample ! r)) ! c else (0::real))"
    by (intro ext) simp
  then have "matrix 7 9 (\<lambda>r c. if r < 7 then coefficient_row (correspondence demo_table (demo_sample ! r)) ! c
                      else 0) = demo_coefficients"
    unfolding matrix_def demo_coefficients_def by simp
  with build_coefficients_valid [OF demo_valid, of 7 "\<lambda>r c. 0"] show ?thesis by simp
qed

lemma demo_memory_build:
  "build_coefficients (\<lambda>r c. 0) (mem_data demo_memory) (mem_sample demo_memory) 7 =
     Inr demo_coefficients"
  by (simp add: demo_memory_def demo_build)

lemma demo_null_space:
  "null_space demo_svd demo_coefficients =
     ([- 1, 0, 0, 0, - 2, 0, 0, 0, 1], [1, 0, 0, 0, 1, 0, 0, 0, 1])"
  by code_simp

lemma demo_null_columns:
  "null_columns demo_svd (product (transpose_m demo_coefficients) demo_coefficients)"
  by code_simp

lemma demo_roots: "roots_found demo_svd demo_psolve demo_coefficients = [1, 1 / 2, - 1]"
  by code_simp

lemma demo_call:
  "estimateModel demo_svd demo_psolve (\<lambda>r c. 0) demo_memory 7 =
     Inr (True, demo_memory\<lparr>mem_models := demo_models\<rparr>)"
  by code_simp

lemma demo_call_fails:
  "estimateModel demo_svd (\<lambda>p. []) (\<lambda>r c. 1) demo_memory_wide 7 = Inr (False, demo_memory_wide)"
  by code_simp

lemma demo_call_skipped:
  "estimateModel demo_svd (\<lambda>p. [- 1]) (\<lambda>r c. 0) demo_memory 7 = Inr (True, demo_memory)"
  by code_simp

lemma demo_roots_skipped: "roots_found demo_svd (\<lambda>p. [- 1]) demo_coefficients = [- 1]"
  by code_simp








section \<open>The claims\<close>

text \<open>
  In the theorems below \<open>A\<close> is the coefficient matrix that the call has built, that
  is, the call got past its reads (\<open>build_coefficients \<dots> = Inr A\<close>); \<open>(f1, f2)\<close> is
  the pair of vectors after the subtraction, and \<open>roots_found svd psolve A\<close> the list
  of roots that the root finder returned.
\<close>

subsection \<open>C1: failure if and only if the root count is 0 or above 3\<close>

text \<open>
  Claim C1. The call returns \<open>false\<close> if and only if the number of real roots found
  for the cubic is 0 or exceeds 3, and \<open>true\<close> for 1 to 3 roots. The count is the
  length of the vector of roots, which the source stores in an \<^verbatim>\<open>int\<close>: the theorem
  asks that it fits.
\<close>

theorem estimateModel_fails_iff_root_count:
  assumes "build_coefficients uninit (mem_data m) (mem_sample m) sample_number = Inr A"
    and "length (roots_found svd psolve A) < 2147483648"
  shows "\<exists>ok m'. estimateModel svd psolve uninit m sample_number = Inr (ok, m') \<and>
           (\<not> ok \<longleftrightarrow> length (roots_found svd psolve A) = 0 \<or> 3 < length (roots_found svd psolve A)) \<and>
           (ok \<longleftrightarrow> 1 \<le> length (roots_found svd psolve A) \<and> length (roots_found svd psolve A) \<le> 3)"
proof -
  obtain f1 f2 where f: "null_space svd A = (f1, f2)"
    by (cases "null_space svd A")
  show ?thesis
    unfolding estimateModel_Inr [OF assms(1) f] to_int_count [OF assms(2)]
    by (cases "roots_found svd psolve A") auto
qed

theorem estimateModel_fails_iff_root_count_witness:
  "build_coefficients (\<lambda>r c. 0) (mem_data demo_memory) (mem_sample demo_memory) 7 = Inr demo_coefficients \<and>
   length (roots_found demo_svd demo_psolve demo_coefficients) < 2147483648 \<and>
   (\<exists>ok m'. estimateModel demo_svd demo_psolve (\<lambda>r c. 0) demo_memory 7 = Inr (ok, m') \<and>
      (\<not> ok \<longleftrightarrow> length (roots_found demo_svd demo_psolve demo_coefficients) = 0 \<or>
                 3 < length (roots_found demo_svd demo_psolve demo_coefficients)) \<and>
      (ok \<longleftrightarrow> 1 \<le> length (roots_found demo_svd demo_psolve demo_coefficients) \<and>
                length (roots_found demo_svd demo_psolve demo_coefficients) \<le> 3))"
proof -
  have h: "length (roots_found demo_svd demo_psolve demo_coefficients) < 2147483648"
    by (simp add: demo_roots)
  from estimateModel_fails_iff_root_count [OF demo_memory_build h] demo_memory_build h
  show ?thesis by blast
qed

subsection \<open>C2: the candidates satisfy the epipolar constraint of the sample\<close>

text \<open>
  Claim C2. For every candidate \<open>F\<close> that the call appended and each of the 7 sampled
  correspondences, the bilinear form \<open>[x1, y1, 1] F [x0, y0, 1]\<^sup>T\<close> is zero. This is
  the statement in exact arithmetic, for a decomposition whose columns 7 and 8 of \<open>V\<close>
  the decomposed matrix \<open>A\<^sup>T A\<close> sends to zero.
\<close>

theorem candidates_satisfy_epipolar_constraint:
  assumes "build_coefficients uninit (mem_data m) (mem_sample m) sample_number = Inr A"
    and "null_columns svd (product (transpose_m A) A)"
    and "estimateModel svd psolve uninit m sample_number = Inr (ok, m')"
    and "M \<in> set (appended m m')"
    and "i < 7"
    and "mem_sample m ! i < 2147483648"
  shows "epipolar (descriptor M) (correspondence (mem_data m) (mem_sample m ! i)) = 0"
proof -
  obtain f1 f2 where f: "null_space svd A = (f1, f2)"
    by (cases "null_space svd A")
  from assms(1) f assms(3,4) obtain lam where
    d: "descriptor M = reshape3x3 (map (\<lambda>x. x / normalizer f1 f2 lam) (pencil lam f1 f2))"
    by (rule estimateModel_appended_from)
  let ?p = "correspondence (mem_data m) (mem_sample m ! i)"
  have row: "coefficient_row ?p ! c = coeff A i c" if "c < 9" for c
  proof -
    have "map (coeff A i) [0..<9] ! c = coeff A i c"
      using that by simp
    then show ?thesis
      unfolding build_coefficients_row [OF assms(1,5,6)] by simp
  qed
  have "(\<Sum>c<9. coefficient_row ?p ! c * f1 ! c) = (\<Sum>c<9. coeff A i c * f1 ! c)"
       "(\<Sum>c<9. coefficient_row ?p ! c * f2 ! c) = (\<Sum>c<9. coeff A i c * f2 ! c)"
    by (intro sum.cong refl; simp add: row)+
  with null_space_rows [OF assms(1,2) f assms(5)] show ?thesis
    unfolding d epipolar_scaled_pencil by simp
qed

theorem candidates_satisfy_epipolar_constraint_witness:
  "build_coefficients (\<lambda>r c. 0) (mem_data demo_memory) (mem_sample demo_memory) 7 = Inr demo_coefficients \<and>
   null_columns demo_svd (product (transpose_m demo_coefficients) demo_coefficients) \<and>
   estimateModel demo_svd demo_psolve (\<lambda>r c. 0) demo_memory 7 =
     Inr (True, demo_memory\<lparr>mem_models := demo_models\<rparr>) \<and>
   \<lparr>descriptor = [[1 / 3, 0, 0], [0, 0, 0], [0, 0, 1]]\<rparr>
     \<in> set (appended demo_memory (demo_memory\<lparr>mem_models := demo_models\<rparr>)) \<and>
   (4::nat) < 7 \<and> mem_sample demo_memory ! 4 < 2147483648 \<and>
   correspondence (mem_data demo_memory) (mem_sample demo_memory ! 4) = (1, - 1, - 3, - 2) \<and>
   epipolar [[1 / 3, 0, 0], [0, 0, 0], [0, 0, 1]] (1, - 1, - 3, - 2) = 0"
proof -
  have M: "\<lparr>descriptor = [[1 / 3, 0, 0], [0, 0, 0], [0, 0, 1]]\<rparr>
     \<in> set (appended demo_memory (demo_memory\<lparr>mem_models := demo_models\<rparr>))"
    by (simp add: appended_def demo_memory_def demo_models_def)
  have i: "(4::nat) < 7" by simp
  have s: "mem_sample demo_memory ! 4 < 2147483648"
    by (simp add: demo_memory_def demo_sample_def)
  have c: "correspondence (mem_data demo_memory) (mem_sample demo_memory ! 4) = (1, - 1, - 3, - 2)"
    by (simp add: correspondence_def table_entry_def demo_memory_def demo_table_def
        demo_sample_def)
  from candidates_satisfy_epipolar_constraint
    [OF demo_memory_build demo_null_columns demo_call M i s]
    demo_memory_build demo_null_columns demo_call M s c
  show ?thesis by simp
qed

subsection \<open>C3: the four coefficients are the determinant of the pencil\<close>

text \<open>
  Claim C3. With \<open>f1\<close> the basis vector after the subtraction, the four scalars
  \<open>c[0]\<close> to \<open>c[3]\<close> satisfy, for every real \<open>\<lambda>\<close>,
  \<open>det (reshape3x3 (\<lambda> f1 + f2)) = c[0] + c[1] \<lambda> + c[2] \<lambda>\<^sup>2 + c[3] \<lambda>\<^sup>3\<close>.
\<close>

theorem cubic_is_determinant_of_pencil:
  "(case null_space svd coefficients of (f1, f2) \<Rightarrow>
      (let c = cubic f1 f2
       in length c = 4 \<and>
          det3 (reshape3x3 (pencil lam f1 f2)) = c ! 0 + c ! 1 * lam + c ! 2 * lam ^ 2 + c ! 3 * lam ^ 3))"
proof -
  have "length (cubic f1 f2) = 4" for f1 f2
    by (simp add: cubic_def Let_def)
  then show ?thesis
    using det3_pencil by (simp add: poly3_def Let_def split: prod.splits)
qed

subsection \<open>C4: what each root contributes\<close>

text \<open>
  Claim C4. For each real root \<open>\<lambda>\<close> with \<open>s = f1[8] \<lambda> + f2[8]\<close>: when
  \<open>|s|\<close> is at most the machine epsilon nothing is appended for it; otherwise
  exactly one candidate is appended, whose first eight entries by rows are
  \<open>f1[i] (\<lambda> (1 / s)) + f2[i] (1 / s)\<close> and whose last entry is 1. A call that has
  built its matrix and got 1 to 3 roots returns \<open>true\<close>, and the entries it has
  appended are these contributions, in the order of the roots.
\<close>

theorem each_root_appends_its_candidate:
  assumes "build_coefficients uninit (mem_data m) (mem_sample m) sample_number = Inr A"
    and "null_space svd A = (f1, f2)"
    and "1 \<le> length (roots_found svd psolve A)"
    and "length (roots_found svd psolve A) \<le> 3"
  shows "\<exists>m'. estimateModel svd psolve uninit m sample_number = Inr (True, m') \<and>
           mem_models m' = mem_models m @ appended m m' \<and>
           appended m m' = concat (map (expected_candidates f1 f2) (roots_found svd psolve A)) \<and>
           (\<forall>lam. expected_candidates f1 f2 lam =
              (let s = f1 ! 8 * lam + f2 ! 8
               in if \<bar>s\<bar> \<le> epsilon then []
                  else [\<lparr>descriptor =
                    [[f1 ! 0 * (lam * (1 / s)) + f2 ! 0 * (1 / s),
                      f1 ! 1 * (lam * (1 / s)) + f2 ! 1 * (1 / s),
                      f1 ! 2 * (lam * (1 / s)) + f2 ! 2 * (1 / s)],
                     [f1 ! 3 * (lam * (1 / s)) + f2 ! 3 * (1 / s),
                      f1 ! 4 * (lam * (1 / s)) + f2 ! 4 * (1 / s),
                      f1 ! 5 * (lam * (1 / s)) + f2 ! 5 * (1 / s)],
                     [f1 ! 6 * (lam * (1 / s)) + f2 ! 6 * (1 / s),
                      f1 ! 7 * (lam * (1 / s)) + f2 ! 7 * (1 / s),
                      1]]\<rparr>]))"
proof -
  let ?rs = "roots_found svd psolve A"
  let ?m' = "m\<lparr>mem_models := mem_models m @ concat (map (expected_candidates f1 f2) ?rs)\<rparr>"
  from assms(3,4) have "length ?rs < 2147483648" by simp
  from to_int_count [OF this] assms(3,4)
  have "\<not> (to_int (length ?rs) < 1 \<or> 3 < to_int (length ?rs))" by auto
  then have call: "estimateModel svd psolve uninit m sample_number = Inr (True, ?m')"
    unfolding estimateModel_Inr [OF assms(1,2)] by simp
  have app: "appended m ?m' = concat (map (expected_candidates f1 f2) ?rs)"
    by (simp add: appended_def)
  have "expected_candidates f1 f2 lam =
            (let s = f1 ! 8 * lam + f2 ! 8
             in if \<bar>s\<bar> \<le> epsilon then []
                else [\<lparr>descriptor =
                  [[f1 ! 0 * (lam * (1 / s)) + f2 ! 0 * (1 / s),
                    f1 ! 1 * (lam * (1 / s)) + f2 ! 1 * (1 / s),
                    f1 ! 2 * (lam * (1 / s)) + f2 ! 2 * (1 / s)],
                   [f1 ! 3 * (lam * (1 / s)) + f2 ! 3 * (1 / s),
                    f1 ! 4 * (lam * (1 / s)) + f2 ! 4 * (1 / s),
                    f1 ! 5 * (lam * (1 / s)) + f2 ! 5 * (1 / s)],
                   [f1 ! 6 * (lam * (1 / s)) + f2 ! 6 * (1 / s),
                    f1 ! 7 * (lam * (1 / s)) + f2 ! 7 * (1 / s),
                    1]]\<rparr>])" for lam
    by (simp add: expected_candidates_def expected_entries_def normalizer_def reshape3x3_def
        Let_def upt_8)
  with call app show ?thesis
    by (intro exI [of _ ?m']) simp
qed

theorem each_root_appends_its_candidate_witness:
  "build_coefficients (\<lambda>r c. 0) (mem_data demo_memory) (mem_sample demo_memory) 7 = Inr demo_coefficients \<and>
   null_space demo_svd demo_coefficients = ([- 1, 0, 0, 0, - 2, 0, 0, 0, 1], [1, 0, 0, 0, 1, 0, 0, 0, 1]) \<and>
   roots_found demo_svd demo_psolve demo_coefficients = [1, 1 / 2, - 1] \<and>
   1 \<le> length (roots_found demo_svd demo_psolve demo_coefficients) \<and>
   length (roots_found demo_svd demo_psolve demo_coefficients) \<le> 3 \<and>
   (\<exists>m'. estimateModel demo_svd demo_psolve (\<lambda>r c. 0) demo_memory 7 = Inr (True, m') \<and>
      mem_models m' = mem_models demo_memory @ appended demo_memory m' \<and>
      appended demo_memory m' =
        concat (map (expected_candidates [- 1, 0, 0, 0, - 2, 0, 0, 0, 1] [1, 0, 0, 0, 1, 0, 0, 0, 1])
          [1, 1 / 2, - 1]) \<and>
      appended demo_memory m' = demo_models) \<and>
   expected_candidates [- 1, 0, 0, 0, - 2, 0, 0, 0, 1] [1, 0, 0, 0, 1, 0, 0, 0, 1] (- 1) = []"
proof -
  have n: "1 \<le> length (roots_found demo_svd demo_psolve demo_coefficients)"
      "length (roots_found demo_svd demo_psolve demo_coefficients) \<le> 3"
    by (simp_all add: demo_roots)
  have skip: "expected_candidates [- 1, 0, 0, 0, - 2, 0, 0, 0, 1] [1, 0, 0, 0, 1, 0, 0, 0, 1] (- 1) = []"
    by (simp add: expected_candidates_def normalizer_def epsilon_def)
  from each_root_appends_its_candidate [OF demo_memory_build demo_null_space n]
  obtain m' where m': "estimateModel demo_svd demo_psolve (\<lambda>r c. 0) demo_memory 7 = Inr (True, m')"
      "mem_models m' = mem_models demo_memory @ appended demo_memory m'"
      "appended demo_memory m' =
        concat (map (expected_candidates [- 1, 0, 0, 0, - 2, 0, 0, 0, 1] [1, 0, 0, 0, 1, 0, 0, 0, 1])
          (roots_found demo_svd demo_psolve demo_coefficients))"
    by blast
  from m'(1) demo_call have "m' = demo_memory\<lparr>mem_models := demo_models\<rparr>" by simp
  then have "appended demo_memory m' = demo_models"
    by (simp add: appended_def demo_memory_def)
  with m' demo_memory_build demo_null_space demo_roots n skip show ?thesis
    by (intro conjI exI [of _ m']) simp_all
qed

subsection \<open>C5: the number of candidates of a successful call\<close>

text \<open>
  Claim C5. A call that has built its matrix returns. When it returns \<open>true\<close>, the
  number of candidates it appended is between 0 and 3 and equals the number of roots
  whose normalization scalar exceeds the machine epsilon in magnitude; and it returns
  \<open>true\<close> with nothing appended exactly when there are 1 to 3 roots and every one of
  them was skipped.
\<close>

theorem candidate_count_on_success:
  assumes "build_coefficients uninit (mem_data m) (mem_sample m) sample_number = Inr A"
    and "null_space svd A = (f1, f2)"
    and "length (roots_found svd psolve A) < 2147483648"
  shows "\<exists>ok m'. estimateModel svd psolve uninit m sample_number = Inr (ok, m') \<and>
           (ok \<longrightarrow>
              length (appended m m') \<le> 3 \<and>
              length (appended m m') =
                length (filter (\<lambda>lam. epsilon < \<bar>f1 ! 8 * lam + f2 ! 8\<bar>) (roots_found svd psolve A))) \<and>
           (ok \<and> appended m m' = [] \<longleftrightarrow>
              1 \<le> length (roots_found svd psolve A) \<and> length (roots_found svd psolve A) \<le> 3 \<and>
              (\<forall>lam\<in>set (roots_found svd psolve A). \<bar>f1 ! 8 * lam + f2 ! 8\<bar> \<le> epsilon))"
proof -
  let ?rs = "roots_found svd psolve A"
  let ?new = "concat (map (expected_candidates f1 f2) ?rs)"
  have len: "length ?new = length (filter (\<lambda>lam. epsilon < \<bar>f1 ! 8 * lam + f2 ! 8\<bar>) ?rs)"
    unfolding length_expected_candidates by (simp add: normalizer_def)
  have none: "?new = [] \<longleftrightarrow> (\<forall>lam\<in>set ?rs. \<bar>f1 ! 8 * lam + f2 ! 8\<bar> \<le> epsilon)"
    unfolding no_expected_candidates by (simp add: normalizer_def)
  show ?thesis
  proof (cases "1 \<le> length ?rs \<and> length ?rs \<le> 3")
    case True
    then have "\<not> (to_int (length ?rs) < 1 \<or> 3 < to_int (length ?rs))"
      unfolding to_int_count [OF assms(3)] by auto
    then have call: "estimateModel svd psolve uninit m sample_number =
        Inr (True, m\<lparr>mem_models := mem_models m @ ?new\<rparr>)"
      unfolding estimateModel_Inr [OF assms(1,2)] by simp
    have app: "appended m (m\<lparr>mem_models := mem_models m @ ?new\<rparr>) = ?new"
      by (simp add: appended_def)
    have "length ?new \<le> length ?rs"
      unfolding len by (rule length_filter_le)
    with True have "length ?new \<le> 3" by simp
    with call app len none True show ?thesis
      by (intro exI [of _ True] exI [of _ "m\<lparr>mem_models := mem_models m @ ?new\<rparr>"]) simp
  next
    case False
    then have "to_int (length ?rs) < 1 \<or> 3 < to_int (length ?rs)"
      unfolding to_int_count [OF assms(3)] by (cases ?rs) auto
    then have "estimateModel svd psolve uninit m sample_number = Inr (False, m)"
      unfolding estimateModel_Inr [OF assms(1,2)] by simp
    with False show ?thesis
      by (intro exI [of _ False] exI [of _ m]) auto
  qed
qed

theorem candidate_count_on_success_witness:
  "build_coefficients (\<lambda>r c. 0) (mem_data demo_memory) (mem_sample demo_memory) 7 = Inr demo_coefficients \<and>
   null_space demo_svd demo_coefficients = ([- 1, 0, 0, 0, - 2, 0, 0, 0, 1], [1, 0, 0, 0, 1, 0, 0, 0, 1]) \<and>
   length (roots_found demo_svd demo_psolve demo_coefficients) < 2147483648 \<and>
   (\<exists>ok m'. estimateModel demo_svd demo_psolve (\<lambda>r c. 0) demo_memory 7 = Inr (ok, m') \<and>
      (ok \<longrightarrow>
         length (appended demo_memory m') \<le> 3 \<and>
         length (appended demo_memory m') =
           length (filter (\<lambda>lam. epsilon < \<bar>[- 1, 0, 0, 0, - 2, 0, 0, 0, 1] ! 8 * lam + [1, 0, 0, 0, 1, 0, 0, 0, 1] ! 8\<bar>)
             (roots_found demo_svd demo_psolve demo_coefficients))) \<and>
      (ok \<and> appended demo_memory m' = [] \<longleftrightarrow>
         1 \<le> length (roots_found demo_svd demo_psolve demo_coefficients) \<and>
         length (roots_found demo_svd demo_psolve demo_coefficients) \<le> 3 \<and>
         (\<forall>lam\<in>set (roots_found demo_svd demo_psolve demo_coefficients).
            \<bar>[- 1, 0, 0, 0, - 2, 0, 0, 0, 1] ! 8 * lam + [1, 0, 0, 0, 1, 0, 0, 0, 1] ! 8\<bar> \<le> epsilon))) \<and>
   roots_found demo_svd demo_psolve demo_coefficients = [1, 1 / 2, - 1] \<and>
   estimateModel demo_svd demo_psolve (\<lambda>r c. 0) demo_memory 7 =
     Inr (True, demo_memory\<lparr>mem_models := demo_models\<rparr>) \<and>
   length (appended demo_memory (demo_memory\<lparr>mem_models := demo_models\<rparr>)) = 2 \<and>
   length (roots_found demo_svd (\<lambda>p. [- 1]) demo_coefficients) < 2147483648 \<and>
   (\<exists>ok m'. estimateModel demo_svd (\<lambda>p. [- 1]) (\<lambda>r c. 0) demo_memory 7 = Inr (ok, m') \<and>
      (ok \<longrightarrow>
         length (appended demo_memory m') \<le> 3 \<and>
         length (appended demo_memory m') =
           length (filter (\<lambda>lam. epsilon < \<bar>[- 1, 0, 0, 0, - 2, 0, 0, 0, 1] ! 8 * lam + [1, 0, 0, 0, 1, 0, 0, 0, 1] ! 8\<bar>)
             (roots_found demo_svd (\<lambda>p. [- 1]) demo_coefficients))) \<and>
      (ok \<and> appended demo_memory m' = [] \<longleftrightarrow>
         1 \<le> length (roots_found demo_svd (\<lambda>p. [- 1]) demo_coefficients) \<and>
         length (roots_found demo_svd (\<lambda>p. [- 1]) demo_coefficients) \<le> 3 \<and>
         (\<forall>lam\<in>set (roots_found demo_svd (\<lambda>p. [- 1]) demo_coefficients).
            \<bar>[- 1, 0, 0, 0, - 2, 0, 0, 0, 1] ! 8 * lam + [1, 0, 0, 0, 1, 0, 0, 0, 1] ! 8\<bar> \<le> epsilon))) \<and>
   roots_found demo_svd (\<lambda>p. [- 1]) demo_coefficients = [- 1] \<and>
   estimateModel demo_svd (\<lambda>p. [- 1]) (\<lambda>r c. 0) demo_memory 7 = Inr (True, demo_memory) \<and>
   appended demo_memory demo_memory = []"
proof -
  have h: "length (roots_found demo_svd demo_psolve demo_coefficients) < 2147483648"
    by (simp add: demo_roots)
  have h': "length (roots_found demo_svd (\<lambda>p. [- 1]) demo_coefficients) < 2147483648"
    by (simp add: demo_roots_skipped)
  have two: "length (appended demo_memory (demo_memory\<lparr>mem_models := demo_models\<rparr>)) = 2"
    by (simp add: appended_def demo_memory_def demo_models_def)
  have none: "appended demo_memory demo_memory = []"
    by (simp add: appended_def)
  note t = candidate_count_on_success [OF demo_memory_build demo_null_space h]
  note t' = candidate_count_on_success [OF demo_memory_build demo_null_space h']
  from t t' demo_memory_build demo_null_space h h' demo_roots demo_call two demo_roots_skipped
    demo_call_skipped none
  show ?thesis by (intro conjI) assumption+
qed

subsection \<open>C6: the coefficient matrix\<close>

text \<open>
  Claim C6. On valid input the call builds its coefficient matrix; the matrix has 7 rows
  and 9 columns, and for each \<open>i\<close> in 0..6 its row \<open>i\<close> is
  \<open>(x1 x0, x1 y0, x1, y1 x0, y1 y0, y1, x0, y0, 1)\<close> for the correspondence
  \<open>(x0, y0, x1, y1)\<close> in row \<^verbatim>\<open>sample_[i]\<close> of the table. The source allocates
  \<^verbatim>\<open>sample_number_\<close> rows and writes rows 0 to 6: the theorem is for the sample size
  \<^verbatim>\<open>sampleSize()\<close> of the solver, with which every allocated row is written.
\<close>

theorem coefficient_matrix_rows:
  assumes "valid_input d sample"
  shows "\<exists>A. build_coefficients uninit d sample sampleSize = Inr A \<and>
           nrows A = 7 \<and> ncols A = 9 \<and>
           (\<forall>i<7. case correspondence d (sample ! i) of (x0, y0, x1, y1) \<Rightarrow>
              map (coeff A i) [0..<9] = [x1 * x0, x1 * y0, x1, y1 * x0, y1 * y0, y1, x0, y0, 1])"
proof -
  from build_coefficients_valid [OF assms, of 7 uninit] obtain A
    where A: "build_coefficients uninit d sample 7 = Inr A"
    by auto
  have "case correspondence d (sample ! i) of (x0, y0, x1, y1) \<Rightarrow>
          map (coeff A i) [0..<9] = [x1 * x0, x1 * y0, x1, y1 * x0, y1 * y0, y1, x0, y0, 1]"
    if "i < 7" for i
  proof -
    from valid_input_rows [OF assms that] have "sample ! i < 2147483648"
      by (simp add: valid_row_def)
    from build_coefficients_row [OF A that this] show ?thesis
      by (cases "correspondence d (sample ! i)") simp
  qed
  with A build_coefficients_Inr [OF A] show ?thesis
    by (auto simp: sampleSize_def)
qed

theorem coefficient_matrix_rows_witness:
  "valid_input demo_table demo_sample \<and>
   correspondence demo_table (demo_sample ! 2) = (3, 1, - 1, 2) \<and>
   (\<exists>A. build_coefficients (\<lambda>r c. 0) demo_table demo_sample sampleSize = Inr A \<and>
      nrows A = 7 \<and> ncols A = 9 \<and>
      map (coeff A 2) [0..<9] = [- 1 * 3, - 1 * 1, - 1, 2 * 3, 2 * 1, 2, 3, 1, 1])"
proof -
  have c: "correspondence demo_table (demo_sample ! 2) = (3, 1, - 1, 2)"
    by (simp add: correspondence_def table_entry_def demo_table_def demo_sample_def)
  from coefficient_matrix_rows [OF demo_valid, where uninit = "\<lambda>r c. 0"] obtain A where
    A: "build_coefficients (\<lambda>r c. 0) demo_table demo_sample sampleSize = Inr A"
      "nrows A = 7" "ncols A = 9"
      "\<forall>i<7. case correspondence demo_table (demo_sample ! i) of (x0, y0, x1, y1) \<Rightarrow>
              map (coeff A i) [0..<9] = [x1 * x0, x1 * y0, x1, y1 * x0, y1 * y0, y1, x0, y0, 1]"
    by blast
  from A(4) have "case correspondence demo_table (demo_sample ! 2) of (x0, y0, x1, y1) \<Rightarrow>
              map (coeff A 2) [0..<9] = [x1 * x0, x1 * y0, x1, y1 * x0, y1 * y0, y1, x0, y0, 1]"
    by simp
  then have "map (coeff A 2) [0..<9] = [- 1 * 3, - 1 * 1, - 1, 2 * 3, 2 * 1, 2, 3, 1, 1]"
    unfolding c by simp
  with A demo_valid c show ?thesis
    by (intro conjI exI [of _ A]) simp_all
qed

subsection \<open>C7: the two basis vectors\<close>



subsection \<open>C8: the candidates are singular\<close>

text \<open>
  Claim C8. Every appended candidate comes from a root \<open>\<lambda>\<close> that was not skipped, and
  its determinant is \<open>1 / s\<^sup>3\<close> times the determinant of \<open>\<lambda> f1 + f2\<close>, that is,
  \<open>1 / s\<^sup>3\<close> times the value of the cubic at \<open>\<lambda>\<close>: it is 0 when \<open>\<lambda>\<close> is a root of
  the cubic.
\<close>

theorem candidates_are_singular:
  assumes "build_coefficients uninit (mem_data m) (mem_sample m) sample_number = Inr A"
    and "null_space svd A = (f1, f2)"
    and "estimateModel svd psolve uninit m sample_number = Inr (ok, m')"
    and "M \<in> set (appended m m')"
  shows "\<exists>lam\<in>set (roots_found svd psolve A).
           epsilon < \<bar>f1 ! 8 * lam + f2 ! 8\<bar> \<and>
           det3 (descriptor M) =
             1 / (f1 ! 8 * lam + f2 ! 8) ^ 3 * det3 (reshape3x3 (pencil lam f1 f2)) \<and>
           det3 (reshape3x3 (pencil lam f1 f2)) = poly3 (cubic f1 f2) lam \<and>
           (poly3 (cubic f1 f2) lam = 0 \<longrightarrow> det3 (descriptor M) = 0)"
proof -
  from assms obtain lam where lam: "lam \<in> set (roots_found svd psolve A)"
    and s: "epsilon < \<bar>normalizer f1 f2 lam\<bar>"
    and d: "descriptor M = reshape3x3 (map (\<lambda>x. x / normalizer f1 f2 lam) (pencil lam f1 f2))"
    by (rule estimateModel_appended_from)
  have det: "det3 (descriptor M) =
      1 / (f1 ! 8 * lam + f2 ! 8) ^ 3 * det3 (reshape3x3 (pencil lam f1 f2))"
    unfolding d det3_scaled by (simp add: normalizer_def)
  moreover have "poly3 (cubic f1 f2) lam = 0 \<longrightarrow> det3 (descriptor M) = 0"
    unfolding det det3_pencil by simp
  ultimately show ?thesis
    using lam s det3_pencil [of lam f1 f2] by (auto simp: normalizer_def)
qed

theorem candidates_are_singular_witness:
  "build_coefficients (\<lambda>r c. 0) (mem_data demo_memory) (mem_sample demo_memory) 7 = Inr demo_coefficients \<and>
   null_space demo_svd demo_coefficients = ([- 1, 0, 0, 0, - 2, 0, 0, 0, 1], [1, 0, 0, 0, 1, 0, 0, 0, 1]) \<and>
   estimateModel demo_svd demo_psolve (\<lambda>r c. 0) demo_memory 7 =
     Inr (True, demo_memory\<lparr>mem_models := demo_models\<rparr>) \<and>
   \<lparr>descriptor = [[1 / 3, 0, 0], [0, 0, 0], [0, 0, 1]]\<rparr>
     \<in> set (appended demo_memory (demo_memory\<lparr>mem_models := demo_models\<rparr>)) \<and>
   roots_found demo_svd demo_psolve demo_coefficients = [1, 1 / 2, - 1] \<and>
   poly3 (cubic [- 1, 0, 0, 0, - 2, 0, 0, 0, 1] [1, 0, 0, 0, 1, 0, 0, 0, 1]) 1 = 0 \<and>
   poly3 (cubic [- 1, 0, 0, 0, - 2, 0, 0, 0, 1] [1, 0, 0, 0, 1, 0, 0, 0, 1]) (1 / 2) = 0 \<and>
   poly3 (cubic [- 1, 0, 0, 0, - 2, 0, 0, 0, 1] [1, 0, 0, 0, 1, 0, 0, 0, 1]) (- 1) = 0 \<and>
   det3 (descriptor \<lparr>descriptor = [[1 / 3, 0, 0], [0, 0, 0], [0, 0, 1]]\<rparr>) = 0"
proof -
  have M: "\<lparr>descriptor = [[1 / 3, 0, 0], [0, 0, 0], [0, 0, 1]]\<rparr>
     \<in> set (appended demo_memory (demo_memory\<lparr>mem_models := demo_models\<rparr>))"
    by (simp add: appended_def demo_memory_def demo_models_def)
  have p: "poly3 (cubic [- 1, 0, 0, 0, - 2, 0, 0, 0, 1] [1, 0, 0, 0, 1, 0, 0, 0, 1]) 1 = 0"
      "poly3 (cubic [- 1, 0, 0, 0, - 2, 0, 0, 0, 1] [1, 0, 0, 0, 1, 0, 0, 0, 1]) (1 / 2) = 0"
      "poly3 (cubic [- 1, 0, 0, 0, - 2, 0, 0, 0, 1] [1, 0, 0, 0, 1, 0, 0, 0, 1]) (- 1) = 0"
    by (simp_all add: poly3_def cubic_def Let_def power2_eq_square power3_eq_cube)
  from candidates_are_singular [OF demo_memory_build demo_null_space demo_call M]
  have "det3 (descriptor \<lparr>descriptor = [[1 / 3, 0, 0], [0, 0, 0], [0, 0, 1]]\<rparr>) = 0"
    unfolding demo_roots using p by auto
  with demo_memory_build demo_null_space demo_call M demo_roots p show ?thesis by simp
qed

subsection \<open>C9: the call only appends\<close>

text \<open>
  Claim C9. A call that returns leaves the table (and the sample) as they were, keeps
  the entries that the output vector held, in place and in order, and adds entries at
  its end only; when it returns \<open>false\<close> it adds none.
\<close>

theorem estimateModel_only_appends:
  assumes "estimateModel svd psolve uninit m sample_number = Inr (ok, m')"
  shows "mem_data m' = mem_data m \<and> mem_sample m' = mem_sample m \<and>
         mem_models m' = mem_models m @ appended m m' \<and>
         (\<not> ok \<longrightarrow> appended m m' = [])"
proof -
  from assms have "(ok \<longrightarrow> (\<exists>new. m' = m\<lparr>mem_models := mem_models m @ new\<rparr>)) \<and> (\<not> ok \<longrightarrow> m' = m)"
    by (rule estimateModel_cases) blast
  then show ?thesis
    by (cases ok) (auto simp: appended_def)
qed

theorem estimateModel_only_appends_witness:
  "estimateModel demo_svd demo_psolve (\<lambda>r c. 0) demo_memory 7 =
     Inr (True, demo_memory\<lparr>mem_models := demo_models\<rparr>) \<and>
   mem_data (demo_memory\<lparr>mem_models := demo_models\<rparr>) = mem_data demo_memory \<and>
   mem_sample (demo_memory\<lparr>mem_models := demo_models\<rparr>) = mem_sample demo_memory \<and>
   mem_models (demo_memory\<lparr>mem_models := demo_models\<rparr>) =
     mem_models demo_memory @ appended demo_memory (demo_memory\<lparr>mem_models := demo_models\<rparr>) \<and>
   estimateModel demo_svd (\<lambda>p. []) (\<lambda>r c. 1) demo_memory_wide 7 = Inr (False, demo_memory_wide) \<and>
   appended demo_memory_wide demo_memory_wide = []"
  using estimateModel_only_appends [OF demo_call] estimateModel_only_appends [OF demo_call_fails]
    demo_call demo_call_fails
  by simp

subsection \<open>C10: the result depends on the sampled rows only\<close>

text \<open>
  Claim C10. Two calls with \<^verbatim>\<open>sample_number_\<close> = 7 on valid input, with the same
  decomposition and root finder, that agree on \<^verbatim>\<open>sample_[0..6]\<close> and on the values
  \<open>(x0, y0, x1, y1)\<close> of those seven rows return the same flag and append the same
  sequence of candidates, whatever the other rows, the further columns, the rest of the
  index array, the content of the output vector and the fresh matrix storage are.
\<close>

theorem estimateModel_depends_only_on_sampled_rows:
  assumes "valid_input (mem_data m1) (mem_sample m1)"
    and "valid_input (mem_data m2) (mem_sample m2)"
    and "take 7 (mem_sample m1) = take 7 (mem_sample m2)"
    and "map (correspondence (mem_data m1)) (take 7 (mem_sample m1)) =
         map (correspondence (mem_data m2)) (take 7 (mem_sample m2))"
  shows "\<exists>ok m1' m2'.
           estimateModel svd psolve uninit1 m1 7 = Inr (ok, m1') \<and>
           estimateModel svd psolve uninit2 m2 7 = Inr (ok, m2') \<and>
           appended m1 m1' = appended m2 m2'"
proof -
  let ?A = "\<lambda>u m. matrix 7 9
      (\<lambda>r c. if r < 7 then coefficient_row (correspondence (mem_data m) (mem_sample m ! r)) ! c
             else u r c)"
  have b1: "build_coefficients uninit1 (mem_data m1) (mem_sample m1) 7 = Inr (?A uninit1 m1)"
    by (rule build_coefficients_valid [OF assms(1)]) simp
  have b2: "build_coefficients uninit2 (mem_data m2) (mem_sample m2) 7 = Inr (?A uninit2 m2)"
    by (rule build_coefficients_valid [OF assms(2)]) simp
  have "coeff (?A uninit1 m1) r c = coeff (?A uninit2 m2) r c" for r c
    using valid_input_correspondence [OF assms(1,2,4), of r] by (simp add: matrix_def)
  then have same: "?A uninit2 m2 = ?A uninit1 m1"
    by (simp add: matrix_def fun_eq_iff)
  obtain f1 f2 where f: "null_space svd (?A uninit1 m1) = (f1, f2)"
    by (cases "null_space svd (?A uninit1 m1)")
  note e1 = estimateModel_Inr [OF b1 f, of psolve]
  note e2 = estimateModel_Inr [OF b2 [unfolded same] f, of psolve]
  show ?thesis
    unfolding e1 e2 by (auto simp: appended_def)
qed

theorem estimateModel_depends_only_on_sampled_rows_witness:
  "valid_input (mem_data demo_memory) (mem_sample demo_memory) \<and>
   valid_input (mem_data demo_memory_wide) (mem_sample demo_memory_wide) \<and>
   take 7 (mem_sample demo_memory) = take 7 (mem_sample demo_memory_wide) \<and>
   map (correspondence (mem_data demo_memory)) (take 7 (mem_sample demo_memory)) =
     map (correspondence (mem_data demo_memory_wide)) (take 7 (mem_sample demo_memory_wide)) \<and>
   (\<exists>ok m1' m2'.
      estimateModel demo_svd demo_psolve (\<lambda>r c. 0) demo_memory 7 = Inr (ok, m1') \<and>
      estimateModel demo_svd demo_psolve (\<lambda>r c. 1) demo_memory_wide 7 = Inr (ok, m2') \<and>
      appended demo_memory m1' = appended demo_memory_wide m2')"
proof -
  have v1: "valid_input (mem_data demo_memory) (mem_sample demo_memory)"
    by (simp add: demo_memory_def demo_valid)
  have v2: "valid_input (mem_data demo_memory_wide) (mem_sample demo_memory_wide)"
    by (simp add: valid_input_def valid_row_def demo_memory_wide_def demo_table_wide_def
        demo_sample_def)
  have s: "take 7 (mem_sample demo_memory) = take 7 (mem_sample demo_memory_wide)"
    by (simp add: demo_memory_def demo_memory_wide_def demo_sample_def)
  have p: "map (correspondence (mem_data demo_memory)) (take 7 (mem_sample demo_memory)) =
     map (correspondence (mem_data demo_memory_wide)) (take 7 (mem_sample demo_memory_wide))"
    by (simp add: demo_memory_def demo_memory_wide_def demo_sample_def correspondence_def
        table_entry_def demo_table_def demo_table_wide_def)
  from estimateModel_depends_only_on_sampled_rows [OF v1 v2 s p] v1 v2 s p
  show ?thesis by blast
qed

end
